theory Spec2Isabelle
  imports Complex_Main
begin

section \<open>Data model (analyzer/models.py)\<close>

text \<open>
  Times are seconds since 1970-01-01T00:00 UTC, calendar dates are days since
  1970-01-01.  A value of a decimal column is the rational it denotes.  A Python
  float is a binary double, modelled by the rational it denotes as well; the
  rounding of every conversion and operation on floats is written out (section
  on the Python built-ins).  Only the columns that the aggregator and the insight
  engine read or write are kept; the surrogate keys of \<open>MarketDemand\<close> and
  \<open>Insight\<close> and the \<open>created_at\<close> columns, which the database assigns, are
  left out.
\<close>

type_synonym timestamp = int
type_synonym date = int

record Airport =
  city :: string
  iata_code :: string

text \<open>
  A route is unique in \<open>(origin, destination, airline)\<close>: two airlines that fly
  between the same airports have two routes.  \<open>airline\<close> is the airline's IATA
  code.
\<close>

record Route =
  route_id :: nat
  origin :: Airport
  destination :: Airport
  airline :: string

text \<open>
  \<open>FlightData.price\<close> is a non-null decimal column.  The model still lets the
  attribute be \<open>None\<close>, so that what \<open>float(f.price)\<close> does on a missing
  price can be stated.
\<close>

record FlightData =
  route :: Route
  departure_time :: timestamp
  price :: "rat option"
  scraped_at :: timestamp

datatype trend = Increasing | Decreasing | Stable

datatype level = Low | Medium | High | Very_high

text \<open>\<open>MarketDemand.route\<close> is the foreign key, the id of the route.\<close>

record MarketDemand =
  md_route :: nat
  md_date :: date
  search_volume :: int
  average_price :: rat
  price_trend :: trend
  demand_level :: level

record Insight =
  title :: string
  description :: string
  insight_type :: string
  confidence_score :: rat
  generated_by :: string

record db =
  flight_table :: "FlightData list"
  market_demand_table :: "MarketDemand list"
  insight_table :: "Insight list"

section \<open>Exceptions and store failures\<close>

datatype error =
  StoreError | TypeError | KeyError | ZeroDivisionError | MultipleObjectsReturned

text \<open>
  The operations on the persistence store.  A run is given the set of operations
  that fail during it; a failing operation raises \<open>StoreError\<close>.
\<close>

datatype store_op =
  QueryFlights
  | GetRoute nat
  | QueryHistory nat date
  | UpdateOrCreate nat date
  | QuerySeasonal
  | GetOrCreate string

type_synonym faults = "store_op \<Rightarrow> bool"

definition no_faults :: faults where
  "no_faults = (\<lambda>_. False)"

section \<open>Python built-ins\<close>

definition date_of :: "timestamp \<Rightarrow> date" where
  "date_of t = t div 86400"

text \<open>\<open>datetime.weekday()\<close>: Monday is 0; 1970-01-01 was a Thursday.\<close>

definition weekday :: "timestamp \<Rightarrow> int" where
  "weekday t = (date_of t + 3) mod 7"

definition days :: "int \<Rightarrow> int" where
  "days n = n * 86400"

definition round_half_even :: "rat \<Rightarrow> int" where
  "round_half_even x =
     (let n = \<lfloor>x\<rfloor>; r = x - of_int n
      in if r < 1 / 2 then n else if 1 / 2 < r then n + 1
         else if even n then n else n + 1)"

subsection \<open>Floats\<close>

text \<open>
  A Python float is an IEEE 754 binary64 number: zero, or \<open>m * 2 ^ e\<close> with an
  integer significand \<open>m\<close> of at most 53 bits and \<open>- 1074 \<le> e\<close>.  Every
  conversion and every arithmetic operation yields the float nearest to the exact
  result, a tie going to the even significand.  The prices come from decimal
  columns of ten digits, so all magnitudes stay far inside the range of the
  format: overflow to infinity does not arise and is not modelled.  Negative zero
  is not distinguished from zero.

  \<open>bit_length\<close> is \<open>int.bit_length()\<close>, \<open>ilog2 x\<close> is the floor of the binary
  logarithm of \<open>\<bar>x\<bar>\<close> for \<open>x \<noteq> 0\<close>, and \<open>round_to_double\<close> rounds a rational to the
  nearest float.
\<close>

function bit_length :: "int \<Rightarrow> nat" where
  "bit_length n = (if n \<le> 0 then 0 else Suc (bit_length (n div 2)))"
  by pat_completeness auto

termination
  by (relation "measure nat") auto

declare bit_length.simps [simp del]

definition pow2 :: "int \<Rightarrow> rat" where
  "pow2 e = (if 0 \<le> e then 2 ^ nat e else 1 / 2 ^ nat (- e))"

definition ilog2 :: "rat \<Rightarrow> int" where
  "ilog2 x =
     (case quotient_of \<bar>x\<bar> of (p, q) \<Rightarrow>
        (let e = int (bit_length p) - int (bit_length q)
         in if pow2 e \<le> \<bar>x\<bar> then e else e - 1))"

definition round_to_double :: "rat \<Rightarrow> rat" where
  "round_to_double x =
     (if x = 0 then 0
      else (let e = max (ilog2 x - 52) (- 1074)
            in of_int (round_half_even (x / pow2 e)) * pow2 e))"

text \<open>
  \<open>float(d)\<close> of a decimal \<open>d\<close>, and the float that a literal such as \<open>0.1\<close>
  denotes.
\<close>

definition float_of :: "rat \<Rightarrow> rat" where
  "float_of d = round_to_double d"

text \<open>
  \<open>x + y\<close>, \<open>x - y\<close>, \<open>x * y\<close> and \<open>x / y\<close> on floats.  The division is used
  with a divisor other than zero only: \<open>x / 0.0\<close> raises \<open>ZeroDivisionError\<close>,
  which the callers below test for.
\<close>

definition fadd :: "rat \<Rightarrow> rat \<Rightarrow> rat" where
  "fadd x y = round_to_double (x + y)"

definition fsub :: "rat \<Rightarrow> rat \<Rightarrow> rat" where
  "fsub x y = round_to_double (x - y)"

definition fmul :: "rat \<Rightarrow> rat \<Rightarrow> rat" where
  "fmul x y = round_to_double (x * y)"

definition fdiv :: "rat \<Rightarrow> rat \<Rightarrow> rat" where
  "fdiv x y = round_to_double (x / y)"

text \<open>
  \<open>sum(xs)\<close> on a list of floats adds from the left, starting from the integer 0
  and rounding after every addition (CPython before 3.12; later versions
  compensate the rounding errors of the partial sums).  \<open>len(xs)\<close> is an
  integer, which the division converts to a float.
\<close>

definition sum_floats :: "rat list \<Rightarrow> rat" where
  "sum_floats xs = foldl fadd 0 xs"

definition float_of_int :: "int \<Rightarrow> rat" where
  "float_of_int n = round_to_double (of_int n)"

text \<open>
  \<open>round(x, 2)\<close> on a float is the float nearest to the decimal with two places
  that is nearest to \<open>x\<close>, a tie going to the even digit.  The only use of it
  writes the result into a decimal column of two places, which stores that
  decimal: \<open>py_round2\<close> is the decimal.
\<close>

definition py_round2 :: "rat \<Rightarrow> rat" where
  "py_round2 x = of_int (round_half_even (x * 100)) / 100"

text \<open>
  A dict whose values are lists, in insertion order: \<open>d[k].append(v)\<close> after
  \<open>if k not in d: d[k] = []\<close>.
\<close>

fun dict_append :: "'k \<Rightarrow> 'v \<Rightarrow> ('k \<times> 'v list) list \<Rightarrow> ('k \<times> 'v list) list" where
  "dict_append k v [] = [(k, [v])]"
| "dict_append k v ((k', vs) # d) =
     (if k = k' then (k', vs @ [v]) # d else (k', vs) # dict_append k v d)"

text \<open>\<open>[float(f.price) for f in flights]\<close>: \<open>float(None)\<close> raises \<open>TypeError\<close>.\<close>

fun float_prices :: "FlightData list \<Rightarrow> error + rat list" where
  "float_prices [] = Inr []"
| "float_prices (f # fs) =
     (case price f of
        None \<Rightarrow> Inl TypeError
      | Some p \<Rightarrow>
          (case float_prices fs of Inl e \<Rightarrow> Inl e | Inr ps \<Rightarrow> Inr (float_of p # ps)))"

section \<open>DataProcessor (analyzer/data_processor.py)\<close>

subsection \<open>calculate\_price\_trend\<close>

text \<open>
  \<open>MarketDemand.objects.filter(route=route, date__gte=week_ago,
  date__lt=current_date).order_by('-date')\<close>
\<close>

definition historical_data :: "MarketDemand list \<Rightarrow> nat \<Rightarrow> date \<Rightarrow> MarketDemand list" where
  "historical_data tbl r current_date =
     (let week_ago = current_date - 7
      in sort_key (\<lambda>m. - md_date m)
           (filter (\<lambda>m. md_route m = r \<and> week_ago \<le> md_date m \<and> md_date m < current_date) tbl))"

text \<open>
  The whole body is inside \<open>try\<close>; \<open>except Exception\<close> returns \<open>'stable'\<close>.
  Two things raise there: the query on a failing store, and the division when the
  stored average is zero.  \<open>current_price\<close> is a float, \<open>average_price\<close> a
  decimal; \<open>0.1\<close> is the float nearest to one tenth.
\<close>

definition calculate_price_trend :: "faults \<Rightarrow> MarketDemand list \<Rightarrow> nat \<Rightarrow> date \<Rightarrow> rat \<Rightarrow> trend" where
  "calculate_price_trend flt tbl r current_date current_price =
     (if flt (QueryHistory r current_date) then Stable
      else case historical_data tbl r current_date of
        [] \<Rightarrow> Stable
      | m # _ \<Rightarrow>
          (let recent_price = float_of (average_price m)
           in if recent_price = 0 then Stable
              else (let price_change = fdiv (fsub current_price recent_price) recent_price
                    in if float_of (1 / 10) < price_change then Increasing
                       else if price_change < - float_of (1 / 10) then Decreasing
                       else Stable)))"

subsection \<open>calculate\_demand\_level\<close>

definition calculate_demand_level :: "int \<Rightarrow> rat \<Rightarrow> level" where
  "calculate_demand_level volume avg_price =
     (if 20 \<le> volume then Very_high
      else if 10 \<le> volume then High
      else if 5 \<le> volume then Medium
      else Low)"

subsection \<open>process\_flight\_data\<close>

text \<open>
  \<open>route_date_groups\<close>: the dict keyed by \<open>(route.id, departure_time.date())\<close>,
  filled in the order in which the queryset yields the flights.
\<close>

definition group_key :: "FlightData \<Rightarrow> nat \<times> date" where
  "group_key flight = (route_id (route flight), date_of (departure_time flight))"

definition route_date_groups :: "FlightData list \<Rightarrow> ((nat \<times> date) \<times> FlightData list) list" where
  "route_date_groups recent_flights =
     foldl (\<lambda>groups flight. dict_append (group_key flight) flight groups) [] recent_flights"

text \<open>
  \<open>MarketDemand.objects.update_or_create(route=route, date=flight_date,
  defaults=...)\<close>: the row with that key is overwritten, a missing row is inserted,
  and several rows with the key raise.  The second component is \<open>created\<close>.
\<close>

definition same_key :: "MarketDemand \<Rightarrow> MarketDemand \<Rightarrow> bool" where
  "same_key new m \<longleftrightarrow> md_route m = md_route new \<and> md_date m = md_date new"

definition update_or_create :: "MarketDemand list \<Rightarrow> MarketDemand \<Rightarrow> error + MarketDemand list \<times> bool" where
  "update_or_create tbl new =
     (case filter (same_key new) tbl of
        [] \<Rightarrow> Inr (tbl @ [new], True)
      | [_] \<Rightarrow> Inr (map (\<lambda>m. if same_key new m then new else m) tbl, False)
      | _ # _ # _ \<Rightarrow> Inl MultipleObjectsReturned)"

text \<open>
  One iteration of \<open>for (route_id, flight_date), flights in
  route_date_groups.items()\<close>.  \<open>Route.objects.get(id=route_id)\<close> finds its
  row, since \<open>route_id\<close> was read through the foreign key.
\<close>

definition process_group ::
  "faults \<Rightarrow> MarketDemand list \<Rightarrow> (nat \<times> date) \<times> FlightData list
    \<Rightarrow> error + MarketDemand list \<times> bool" where
  "process_group flt tbl g =
     (case g of ((rid, flight_date), flights) \<Rightarrow>
        if flt (GetRoute rid) then Inl StoreError
        else (case float_prices flights of
           Inl e \<Rightarrow> Inl e
         | Inr prices \<Rightarrow>
             if length prices = 0 then Inl ZeroDivisionError
             else (let avg_price = fdiv (sum_floats prices) (float_of_int (int (length prices)));
                       volume = int (length flights);
                       pt = calculate_price_trend flt tbl rid flight_date avg_price;
                       dl = calculate_demand_level volume avg_price
                   in if flt (UpdateOrCreate rid flight_date) then Inl StoreError
                      else update_or_create tbl
                             \<lparr>md_route = rid, md_date = flight_date, search_volume = volume,
                              average_price = py_round2 avg_price, price_trend = pt,
                              demand_level = dl\<rparr>)))"

text \<open>
  The loop.  An exception leaves it at once; the rows written before stay written,
  there is no transaction.
\<close>

fun process_groups ::
  "faults \<Rightarrow> ((nat \<times> date) \<times> FlightData list) list \<Rightarrow> MarketDemand list \<Rightarrow> nat
    \<Rightarrow> MarketDemand list \<times> (error + nat)" where
  "process_groups flt [] tbl processed_count = (tbl, Inr processed_count)"
| "process_groups flt (g # gs) tbl processed_count =
     (case process_group flt tbl g of
        Inl e \<Rightarrow> (tbl, Inl e)
      | Inr (tbl', created) \<Rightarrow>
          process_groups flt gs tbl' (if created then processed_count + 1 else processed_count))"

text \<open>The returned dict; \<open>error\<close> is the key that only the \<open>except\<close> branch sets.\<close>

record result =
  processed :: nat
  insights_generated :: nat
  error :: "error option"

definition process_flight_data :: "faults \<Rightarrow> timestamp \<Rightarrow> db \<Rightarrow> db \<times> result" where
  "process_flight_data flt now d =
     (if flt QueryFlights
      then (d, \<lparr>processed = 0, insights_generated = 0, error = Some StoreError\<rparr>)
      else (let recent_flights = filter (\<lambda>f. now - days 30 \<le> scraped_at f) (flight_table d)
            in if recent_flights = []
               then (d, \<lparr>processed = 0, insights_generated = 0, error = None\<rparr>)
               else (case process_groups flt (route_date_groups recent_flights)
                            (market_demand_table d) 0 of
                  (tbl, Inl e) \<Rightarrow>
                    (d\<lparr>market_demand_table := tbl\<rparr>,
                     \<lparr>processed = 0, insights_generated = 0, error = Some e\<rparr>)
                | (tbl, Inr n) \<Rightarrow>
                    (d\<lparr>market_demand_table := tbl\<rparr>,
                     \<lparr>processed = n, insights_generated = 0, error = None\<rparr>))))"



section \<open>AIProcessor (analyzer/ai\_processor.py)\<close>

subsection \<open>Candidate dicts and string formatting\<close>

text \<open>
  A candidate is a dict with the keys \<open>title\<close>, \<open>description\<close>, \<open>type\<close> and
  \<open>confidence\<close>.  The rule-based analyzers set all four; a dict parsed from the
  text generator's answer may lack any of them.  A confidence is kept as the
  decimal that its literal denotes: the dict carries the float nearest to it, and
  the column \<open>confidence_score\<close>, of two decimal places, stores the decimal.
\<close>

record insight_data =
  data_title :: "string option"
  data_description :: "string option"
  data_type :: "string option"
  data_confidence :: "rat option"

definition insight_dict :: "string \<Rightarrow> string \<Rightarrow> string \<Rightarrow> rat \<Rightarrow> insight_data" where
  "insight_dict t de ty c =
     \<lparr>data_title = Some t, data_description = Some de, data_type = Some ty,
      data_confidence = Some c\<rparr>"

text \<open>\<open>str(n)\<close> for a natural number.\<close>

fun str_nat :: "nat \<Rightarrow> string" where
  "str_nat n =
     (if n < 10 then [''0123456789'' ! n]
      else str_nat (n div 10) @ [''0123456789'' ! (n mod 10)])"

declare str_nat.simps [simp del]

text \<open>
  \<open>f'{x:.kf}'\<close>: the exact value of the float \<open>x\<close> in fixed point, rounded to
  \<open>k\<close> digits after the point, a tie going to the even digit.
\<close>

definition format_fixed :: "nat \<Rightarrow> rat \<Rightarrow> string" where
  "format_fixed k x =
     (let n = nat (round_half_even (\<bar>x\<bar> * 10 ^ k));
          frac = str_nat (n mod 10 ^ k)
      in (if x < 0 then ''-'' else []) @ str_nat (n div 10 ^ k) @ ''.''
         @ replicate (k - length frac) (CHR ''0'') @ frac)"

definition route_key :: "FlightData \<Rightarrow> string" where
  "route_key flight =
     iata_code (origin (route flight)) @ ''-'' @ iata_code (destination (route flight))"

definition route_name :: "FlightData \<Rightarrow> string" where
  "route_name flight =
     city (origin (route flight)) @ '' to '' @ city (destination (route flight))"

subsection \<open>analyze\_price\_trends\<close>

text \<open>The first loop: \<open>route_prices[route_key].append(float(flight.price))\<close>.\<close>

fun route_prices :: "FlightData list \<Rightarrow> (string \<times> rat list) list \<Rightarrow> error + (string \<times> rat list) list" where
  "route_prices [] d = Inr d"
| "route_prices (flight # flights) d =
     (case price flight of
        None \<Rightarrow> Inl TypeError
      | Some p \<Rightarrow> route_prices flights (dict_append (route_key flight) (float_of p) d))"

definition high_volatility_insight :: "string \<Rightarrow> rat \<Rightarrow> rat \<Rightarrow> rat \<Rightarrow> insight_data" where
  "high_volatility_insight rk min_price max_price avg_price =
     insight_dict
       (''High Price Volatility on '' @ rk @ '' Route'')
       (''The '' @ rk @ '' route shows significant price fluctuations with prices ranging from $''
        @ format_fixed 2 min_price @ '' to $'' @ format_fixed 2 max_price @ '' (average: $''
        @ format_fixed 2 avg_price
        @ ''). This indicates high demand variability or limited seat availability.'')
       ''price_trend'' (85 / 100)"

definition budget_friendly_insight :: "string \<Rightarrow> rat \<Rightarrow> insight_data" where
  "budget_friendly_insight rk avg_price =
     insight_dict
       (''Budget-Friendly Route: '' @ rk)
       (''The '' @ rk @ '' route offers competitive pricing with an average of $''
        @ format_fixed 2 avg_price
        @ ''. This route shows stable, affordable pricing suitable for budget-conscious travelers.'')
       ''price_trend'' (9 / 10)"

text \<open>
  The second loop, with the list \<open>insights\<close> built so far.  The division by a
  zero average raises inside the \<open>try\<close>: the \<open>except\<close> logs it and the function
  returns the candidates it had.
\<close>

fun analyze_routes :: "(string \<times> rat list) list \<Rightarrow> insight_data list \<Rightarrow> insight_data list" where
  "analyze_routes [] insights = insights"
| "analyze_routes ((rk, prices) # rest) insights =
     (if length prices < 3 then analyze_routes rest insights
      else (let avg_price = fdiv (sum_floats prices) (float_of_int (int (length prices)));
                min_price = Min (set prices);
                max_price = Max (set prices)
            in if avg_price = 0 then insights
               else (let price_volatility = fdiv (fsub max_price min_price) avg_price
                     in if float_of (1 / 2) < price_volatility
                        then analyze_routes rest
                               (insights @ [high_volatility_insight rk min_price max_price avg_price])
                        else if avg_price < 200
                        then analyze_routes rest (insights @ [budget_friendly_insight rk avg_price])
                        else analyze_routes rest insights)))"

definition analyze_price_trends :: "FlightData list \<Rightarrow> insight_data list" where
  "analyze_price_trends flights =
     (case route_prices flights [] of Inl e \<Rightarrow> [] | Inr d \<Rightarrow> analyze_routes d [])"

subsection \<open>analyze\_popular\_routes\<close>

record route_count =
  count :: nat
  iata :: string

fun count_route :: "string \<Rightarrow> string \<Rightarrow> (string \<times> route_count) list \<Rightarrow> (string \<times> route_count) list" where
  "count_route k i [] = [(k, \<lparr>count = 1, iata = i\<rparr>)]"
| "count_route k i ((k', c) # d) =
     (if k = k' then (k', c\<lparr>count := count c + 1\<rparr>) # d else (k', c) # count_route k i d)"

definition route_counts :: "FlightData list \<Rightarrow> (string \<times> route_count) list" where
  "route_counts flights =
     foldl (\<lambda>d flight. count_route (route_name flight) (route_key flight) d) [] flights"

text \<open>
  \<open>sorted(route_counts.items(), key=lambda x: x[1]['count'], reverse=True)\<close>:
  Python's sort is stable, also with \<open>reverse=True\<close>.
\<close>

definition sorted_routes :: "FlightData list \<Rightarrow> (string \<times> route_count) list" where
  "sorted_routes flights = sort_key (\<lambda>x. - int (count (snd x))) (route_counts flights)"

definition popular_route_insight :: "nat \<Rightarrow> string \<times> route_count \<Rightarrow> insight_data" where
  "popular_route_insight i x =
     insight_dict
       (''Popular Route #'' @ str_nat (i + 1) @ '': '' @ fst x)
       (fst x @ '' ('' @ iata (snd x) @ '') is showing high activity with ''
        @ str_nat (count (snd x))
        @ '' flights in the analyzed period. This route demonstrates strong market demand and frequent service availability.'')
       ''popular_route'' (9 / 10)"

definition analyze_popular_routes :: "FlightData list \<Rightarrow> insight_data list" where
  "analyze_popular_routes flights =
     map (\<lambda>(i, x). popular_route_insight i x) (enumerate 0 (take 3 (sorted_routes flights)))"

subsection \<open>analyze\_seasonal\_patterns\<close>

text \<open>
  The analyzer reads the flights that depart between ten days ago and today.  The
  whole body is inside \<open>try\<close>: a failing query, a missing price and the division
  by a zero weekday average all end in \<open>return insights\<close> with the empty list.
\<close>

definition weekend_premium_insight :: "rat \<Rightarrow> rat \<Rightarrow> insight_data" where
  "weekend_premium_insight avg_weekend_price avg_weekday_price =
     insight_dict
       ''Weekend Premium Pricing Pattern''
       (''Weekend flights show premium pricing with an average of $''
        @ format_fixed 2 avg_weekend_price @ '' compared to $''
        @ format_fixed 2 avg_weekday_price
        @ '' for weekday flights. This represents a ''
        @ format_fixed 1 (fmul (fsub (fdiv avg_weekend_price avg_weekday_price) 1) 100)
        @ ''% weekend premium.'')
       ''seasonal_pattern'' (85 / 100)"

definition analyze_seasonal_patterns :: "faults \<Rightarrow> timestamp \<Rightarrow> db \<Rightarrow> insight_data list" where
  "analyze_seasonal_patterns flt now d =
     (let end_date = date_of now; start_date = end_date - 10
      in if flt QuerySeasonal then []
         else (let flights = filter (\<lambda>f. start_date \<le> date_of (departure_time f)
                                          \<and> date_of (departure_time f) \<le> end_date)
                               (flight_table d)
               in case (float_prices (filter (\<lambda>f. 5 \<le> weekday (departure_time f)) flights),
                        float_prices (filter (\<lambda>f. \<not> 5 \<le> weekday (departure_time f)) flights)) of
                    (Inr weekend_prices, Inr weekday_prices) \<Rightarrow>
                      if weekend_prices \<noteq> [] \<and> weekday_prices \<noteq> []
                      then (let avg_weekend_price =
                                  fdiv (sum_floats weekend_prices)
                                    (float_of_int (int (length weekend_prices)));
                                avg_weekday_price =
                                  fdiv (sum_floats weekday_prices)
                                    (float_of_int (int (length weekday_prices)))
                            in if fmul avg_weekday_price (float_of (11 / 10)) < avg_weekend_price
                               then (if avg_weekday_price = 0 then []
                                     else [weekend_premium_insight avg_weekend_price avg_weekday_price])
                               else [])
                      else []
                  | _ \<Rightarrow> []))"

subsection \<open>Saving candidates\<close>

text \<open>
  \<open>Insight.objects.get_or_create(title=..., defaults=...)\<close>: a stored row with
  the title is returned as it is, a missing one is inserted, several raise.  The
  result is the table, the row and \<open>created\<close>.
\<close>

definition get_or_create :: "Insight list \<Rightarrow> Insight \<Rightarrow> error + Insight list \<times> Insight \<times> bool" where
  "get_or_create tbl new =
     (case filter (\<lambda>i. title i = title new) tbl of
        [] \<Rightarrow> Inr (tbl @ [new], new, True)
      | [i] \<Rightarrow> Inr (tbl, i, False)
      | _ # _ # _ \<Rightarrow> Inl MultipleObjectsReturned)"

text \<open>
  The loop \<open>for insight_data in insights\<close> of \<open>generate_insights\<close> and of
  \<open>generate_mock_insights\<close>, which differ in the generator tag only: a missing
  key raises \<open>KeyError\<close> while the arguments are evaluated, a missing confidence
  defaults to 0.8, and the rows that were created are collected.
\<close>

fun save_insights ::
  "faults \<Rightarrow> string \<Rightarrow> insight_data list \<Rightarrow> Insight list \<Rightarrow> Insight list
    \<Rightarrow> Insight list \<times> (error + Insight list)" where
  "save_insights flt tag [] tbl saved_insights = (tbl, Inr saved_insights)"
| "save_insights flt tag (x # xs) tbl saved_insights =
     (case (data_title x, data_description x, data_type x) of
        (Some t, Some de, Some ty) \<Rightarrow>
          if flt (GetOrCreate t) then (tbl, Inl StoreError)
          else (case get_or_create tbl
                       \<lparr>title = t, description = de, insight_type = ty,
                        confidence_score = (case data_confidence x of None \<Rightarrow> 8 / 10 | Some c \<Rightarrow> c),
                        generated_by = tag\<rparr> of
                  Inl e \<Rightarrow> (tbl, Inl e)
                | Inr (tbl', insight, created) \<Rightarrow>
                    save_insights flt tag xs tbl'
                      (if created then saved_insights @ [insight] else saved_insights))
      | _ \<Rightarrow> (tbl, Inl KeyError))"

subsection \<open>generate\_mock\_insights\<close>

definition mock_insights :: "insight_data list" where
  "mock_insights =
     [insight_dict ''Sydney-Melbourne Route Shows Strong Demand''
        ''The Sydney to Melbourne route demonstrates consistent high booking volume with competitive pricing averaging $180-220. This route represents a key opportunity for business travelers and weekend getaways.''
        ''popular_route'' (85 / 100),
      insight_dict ''Weekend Premium Pricing Detected''
        ''Flight prices show a 15-25% increase during weekends across major Australian routes. This premium pricing indicates higher leisure travel demand on weekends.''
        ''seasonal_pattern'' (9 / 10),
      insight_dict ''Brisbane-Gold Coast Corridor Opportunity''
        ''The Brisbane to Gold Coast route shows growing demand with relatively stable pricing. This short-haul route could benefit from increased frequency during peak tourist seasons.''
        ''demand_forecast'' (75 / 100)]"

text \<open>
  The function has no \<open>try\<close>: an exception of the store leaves it.  The returned
  list holds the rows this call created (\<open>serialize_insight\<close> copies the columns).
\<close>

definition generate_mock_insights :: "faults \<Rightarrow> db \<Rightarrow> db \<times> (error + Insight list)" where
  "generate_mock_insights flt d =
     (case save_insights flt ''Mock_AI_Processor'' mock_insights (insight_table d) [] of
        (tbl, r) \<Rightarrow> (d\<lparr>insight_table := tbl\<rparr>, r))"

subsection \<open>generate\_insights\<close>

text \<open>
  The text generator is outside the program: \<open>gemini\<close> is \<open>None\<close> when no model
  is configured and otherwise the list that \<open>generate_gemini_insights\<close> returns,
  which is empty when the call or the parsing of its answer fails.

  \<open>try_generate_insights\<close> is the body of the \<open>try\<close>; \<open>generate_insights\<close>
  adds the handler, which returns \<open>self.generate_mock_insights()\<close>.
\<close>

definition try_generate_insights ::
  "faults \<Rightarrow> insight_data list option \<Rightarrow> timestamp \<Rightarrow> db \<Rightarrow> db \<times> (error + Insight list)" where
  "try_generate_insights flt gemini now d =
     (if flt QueryFlights then (d, Inl StoreError)
      else (let recent_flights = filter (\<lambda>f. now - days 7 \<le> scraped_at f) (flight_table d)
            in if recent_flights = [] then generate_mock_insights flt d
               else (let insights =
                           analyze_price_trends recent_flights
                           @ analyze_popular_routes recent_flights
                           @ analyze_seasonal_patterns flt now d
                           @ (case gemini of None \<Rightarrow> [] | Some ai_insights \<Rightarrow> ai_insights)
                     in case save_insights flt ''AI_Processor'' insights (insight_table d) [] of
                          (tbl, r) \<Rightarrow> (d\<lparr>insight_table := tbl\<rparr>, r))))"

definition generate_insights ::
  "faults \<Rightarrow> insight_data list option \<Rightarrow> timestamp \<Rightarrow> db \<Rightarrow> db \<times> (error + Insight list)" where
  "generate_insights flt gemini now d =
     (case try_generate_insights flt gemini now d of
        (d', Inl e) \<Rightarrow> generate_mock_insights flt d'
      | (d', Inr saved) \<Rightarrow> (d', Inr saved))"

section \<open>The volatility rule per group\<close>





section \<open>Auxiliary notions for the aggregator\<close>

text \<open>
  The key under which \<open>update_or_create\<close> looks a record up; the condition
  under which an iteration of the loop over the groups reaches
  \<open>update_or_create\<close>, which does not depend on the table; the row that the
  iteration then writes; and the order of dates within each route, for a list of
  keys.
\<close>

definition md_key :: "MarketDemand \<Rightarrow> nat \<times> date" where
  "md_key m = (md_route m, md_date m)"

definition group_ok :: "faults \<Rightarrow> (nat \<times> date) \<times> FlightData list \<Rightarrow> bool" where
  "group_ok flt g \<longleftrightarrow>
     (case g of ((rid, flight_date), flights) \<Rightarrow>
        \<not> flt (GetRoute rid) \<and> flights \<noteq> [] \<and> None \<notin> set (map price flights)
        \<and> \<not> flt (UpdateOrCreate rid flight_date))"

definition group_row ::
  "faults \<Rightarrow> MarketDemand list \<Rightarrow> (nat \<times> date) \<times> FlightData list \<Rightarrow> MarketDemand" where
  "group_row flt tbl g =
     (case g of ((rid, flight_date), flights) \<Rightarrow>
        (let prices = map (\<lambda>f. float_of (the (price f))) flights;
             avg_price = fdiv (sum_floats prices) (float_of_int (int (length prices)));
             volume = int (length flights)
         in \<lparr>md_route = rid, md_date = flight_date, search_volume = volume,
             average_price = py_round2 avg_price,
             price_trend = calculate_price_trend flt tbl rid flight_date avg_price,
             demand_level = calculate_demand_level volume avg_price\<rparr>))"

definition date_ordered :: "(nat \<times> date) list \<Rightarrow> bool" where
  "date_ordered keys = sorted_wrt (\<lambda>k k'. fst k = fst k' \<longrightarrow> snd k \<le> snd k') keys"

section \<open>Example data\<close>

definition airport :: "string \<Rightarrow> string \<Rightarrow> Airport" where
  "airport c i = \<lparr>city = c, iata_code = i\<rparr>"

definition SYD_MEL :: Route where
  "SYD_MEL = \<lparr>route_id = 1, origin = airport ''Sydney'' ''SYD'',
     destination = airport ''Melbourne'' ''MEL'', airline = ''QF''\<rparr>"

definition SYD_BNE :: Route where
  "SYD_BNE = \<lparr>route_id = 2, origin = airport ''Sydney'' ''SYD'',
     destination = airport ''Brisbane'' ''BNE'', airline = ''QF''\<rparr>"

definition BNE_OOL :: Route where
  "BNE_OOL = \<lparr>route_id = 3, origin = airport ''Brisbane'' ''BNE'',
     destination = airport ''Gold Coast'' ''OOL'', airline = ''QF''\<rparr>"


text \<open>A flight that departs at 01:00 on day \<open>dep\<close> and was scraped at time 0.\<close>

definition flight :: "Route \<Rightarrow> date \<Rightarrow> rat \<Rightarrow> FlightData" where
  "flight r dep p =
     \<lparr>route = r, departure_time = dep * 86400 + 3600, price = Some p, scraped_at = 0\<rparr>"

definition prior100 :: MarketDemand where
  "prior100 = \<lparr>md_route = 1, md_date = 9, search_volume = 3, average_price = 100,
     price_trend = Stable, demand_level = Low\<rparr>"

text \<open>
  Stored records of route 1 on day 9 with the averages 203.00 and 199.00, a store
  that holds the first one and a single flight of that route on day 10 at 223.30,
  and a run in which the history query of route 1 for day 10 fails.
\<close>

definition prior203 :: MarketDemand where
  "prior203 = \<lparr>md_route = 1, md_date = 9, search_volume = 3, average_price = 203,
     price_trend = Stable, demand_level = Low\<rparr>"

definition prior199 :: MarketDemand where
  "prior199 = \<lparr>md_route = 1, md_date = 9, search_volume = 3, average_price = 199,
     price_trend = Stable, demand_level = Low\<rparr>"

definition db203 :: db where
  "db203 = \<lparr>flight_table = [flight SYD_MEL 10 (2233 / 10)], market_demand_table = [prior203],
     insight_table = []\<rparr>"

definition history_fails :: faults where
  "history_fails = (\<lambda>op. op = QueryHistory 1 10)"



text \<open>A store that already holds an insight under the title of the second mock insight.\<close>

definition stored_weekend :: Insight where
  "stored_weekend =
     \<lparr>title = ''Weekend Premium Pricing Detected'', description = ''An earlier text.'',
      insight_type = ''seasonal_pattern'', confidence_score = 1 / 2,
      generated_by = ''AI_Processor''\<rparr>"

definition db_stored :: db where
  "db_stored = \<lparr>flight_table = [], market_demand_table = [], insight_table = [stored_weekend]\<rparr>"

text \<open>
  The rows that the mock fallback writes into an empty insight table, the empty
  database, and the database that holds exactly those rows.
\<close>

definition mock_rows :: "Insight list" where
  "mock_rows = fst (save_insights no_faults ''Mock_AI_Processor'' mock_insights [] [])"

definition db_empty :: db where
  "db_empty = \<lparr>flight_table = [], market_demand_table = [], insight_table = []\<rparr>"

definition db_mocked :: db where
  "db_mocked = \<lparr>flight_table = [], market_demand_table = [], insight_table = mock_rows\<rparr>"




definition unpriced :: FlightData where
  "unpriced = \<lparr>route = SYD_BNE, departure_time = 3 * 86400 + 3600, price = None, scraped_at = 0\<rparr>"

text \<open>
  A store with a flight without a price between two flights that have one; a run
  in which the query for the flights fails; a store with the record of day 9 at
  100 and a flight of the same route on day 10 at 111; and two stores with the
  same two flights of one route, on day 5 at 200 and on day 3 at 100, the later
  date first in one and last in the other.
\<close>

definition db_unpriced :: db where
  "db_unpriced = \<lparr>flight_table = [flight SYD_MEL 3 100, unpriced, flight BNE_OOL 3 80],
     market_demand_table = [], insight_table = []\<rparr>"

definition query_fails :: faults where
  "query_fails = (\<lambda>op. op = QueryFlights)"

definition db111 :: db where
  "db111 = \<lparr>flight_table = [flight SYD_MEL 10 111], market_demand_table = [prior100],
     insight_table = []\<rparr>"

definition db_backwards :: db where
  "db_backwards = \<lparr>flight_table = [flight SYD_MEL 5 200, flight SYD_MEL 3 100],
     market_demand_table = [], insight_table = []\<rparr>"

definition db_forwards :: db where
  "db_forwards = \<lparr>flight_table = [flight SYD_MEL 3 100, flight SYD_MEL 5 200],
     market_demand_table = [], insight_table = []\<rparr>"

text \<open>The row of a group of one flight.\<close>

definition row1 :: "nat \<Rightarrow> date \<Rightarrow> rat \<Rightarrow> trend \<Rightarrow> MarketDemand" where
  "row1 r d p t = \<lparr>md_route = r, md_date = d, search_volume = 1, average_price = p,
     price_trend = t, demand_level = Low\<rparr>"

section \<open>Demand level\<close>

text \<open>
  C5.  The demand level depends on the observation count alone, whatever the
  average price: a count of at least 20 gives very\_high, from 10 to 19 high, from 5
  to 9 medium, below 5 low.
\<close>

theorem calculate_demand_level_thresholds:
  "calculate_demand_level n p = calculate_demand_level n q
   \<and> calculate_demand_level n p =
     (if 20 \<le> n then Very_high else if 10 \<le> n \<and> n < 20 then High
      else if 5 \<le> n \<and> n < 10 then Medium else Low)
   \<and> calculate_demand_level 20 p = Very_high
   \<and> calculate_demand_level 19 p = High
   \<and> calculate_demand_level 10 p = High
   \<and> calculate_demand_level 9 p = Medium
   \<and> calculate_demand_level 5 p = Medium
   \<and> calculate_demand_level 4 p = Low"
  by (simp add: calculate_demand_level_def)

section \<open>Price trend\<close>

lemma set_historical_data:
  "set (historical_data tbl r d) =
     {m \<in> set tbl. md_route m = r \<and> d - 7 \<le> md_date m \<and> md_date m < d}"
  by (auto simp: historical_data_def Let_def)

lemma historical_data_empty:
  "historical_data tbl r d = [] \<longleftrightarrow>
     (\<forall>m \<in> set tbl. \<not> (md_route m = r \<and> d - 7 \<le> md_date m \<and> md_date m < d))"
proof -
  have "historical_data tbl r d = [] \<longleftrightarrow> set (historical_data tbl r d) = {}"
    by simp
  then show ?thesis
    by (auto simp: set_historical_data)
qed

lemma historical_data_hd_latest:
  assumes "historical_data tbl r d = h # hs" and "x \<in> set (historical_data tbl r d)"
  shows "md_date x \<le> md_date h"
proof -
  have "sorted (map (\<lambda>m. - md_date m) (historical_data tbl r d))"
    by (simp add: historical_data_def Let_def)
  with assms show ?thesis
    by auto
qed

lemma historical_data_first:
  assumes m: "m \<in> set tbl" "md_route m = r" "d - 7 \<le> md_date m" "md_date m < d"
    and latest: "\<forall>m' \<in> set tbl. md_route m' = r \<and> d - 7 \<le> md_date m' \<and> md_date m' < d
                   \<longrightarrow> m' = m \<or> md_date m' < md_date m"
  shows "\<exists>hs. historical_data tbl r d = m # hs"
proof -
  from m have mem: "m \<in> set (historical_data tbl r d)"
    by (simp add: set_historical_data)
  then obtain h hs where eq: "historical_data tbl r d = h # hs"
    by (cases "historical_data tbl r d") auto
  have "h \<in> set (historical_data tbl r d)"
    by (simp add: eq)
  then have hin: "h \<in> set tbl" "md_route h = r" "d - 7 \<le> md_date h" "md_date h < d"
    by (simp_all add: set_historical_data)
  from historical_data_hd_latest[OF eq mem] have "md_date m \<le> md_date h" .
  with latest hin have "h = m"
    by force
  with eq show ?thesis
    by simp
qed

lemma calculate_price_trend_latest:
  assumes "\<not> flt (QueryHistory r d)"
    and "m \<in> set tbl" "md_route m = r" "d - 7 \<le> md_date m" "md_date m < d"
    and "\<forall>m' \<in> set tbl. md_route m' = r \<and> d - 7 \<le> md_date m' \<and> md_date m' < d
                   \<longrightarrow> m' = m \<or> md_date m' < md_date m"
  shows "calculate_price_trend flt tbl r d new_avg =
            (if float_of (average_price m) = 0 then Stable
             else if float_of (1 / 10)
                       < fdiv (fsub new_avg (float_of (average_price m))) (float_of (average_price m))
             then Increasing
             else if fdiv (fsub new_avg (float_of (average_price m))) (float_of (average_price m))
                       < - float_of (1 / 10)
             then Decreasing
             else Stable)"
proof -
  obtain hs where "historical_data tbl r d = m # hs"
    using historical_data_first[of m tbl r d] assms(2-6) by blast
  with assms(1) show ?thesis
    by (simp add: calculate_price_trend_def Let_def)
qed

lemma float_of_tenth: "float_of (1 / 10) = 3602879701896397 / 36028797018963968"
  by code_simp

lemma trend_100_111: "calculate_price_trend no_faults [prior100] 1 10 111 = Increasing"
  by code_simp

lemma trend_100_89: "calculate_price_trend no_faults [prior100] 1 10 89 = Decreasing"
  by code_simp

lemma trend_100_105: "calculate_price_trend no_faults [prior100] 1 10 105 = Stable"
  by code_simp

lemma trend_100_110: "calculate_price_trend no_faults [prior100] 1 10 110 = Stable"
  by code_simp

lemma trend_203: "calculate_price_trend no_faults [prior203] 1 10 (float_of (2233 / 10)) = Increasing"
  by code_simp

lemma trend_199: "calculate_price_trend no_faults [prior199] 1 10 (float_of (1791 / 10)) = Decreasing"
  by code_simp

lemma process_db203:
  "market_demand_table (fst (process_flight_data no_faults 0 db203)) =
     [prior203,
      \<lparr>md_route = 1, md_date = 10, search_volume = 1, average_price = 2233 / 10,
       price_trend = Increasing, demand_level = Low\<rparr>]"
  by code_simp

text \<open>
  C4 (amended).  The trend of a group with the new average \<open>new_avg\<close>, a float,
  for route \<open>r\<close> on date \<open>d\<close> is stable when the history query fails, and stable
  when the table holds no record of \<open>r\<close> dated in the seven days strictly before
  \<open>d\<close>.  When the query succeeds and \<open>m\<close> is the most recent such record, the
  stored average of \<open>m\<close> is converted to a float \<open>prior\<close>; the trend is stable
  when \<open>prior\<close> is zero, and is otherwise decided by the relative change computed
  in float arithmetic, the rounded quotient of the rounded difference
  \<open>new_avg - prior\<close> by \<open>prior\<close>: increasing when the change exceeds the float
  nearest to 0.1, decreasing when it is below the float nearest to -0.1, stable
  otherwise.
\<close>

theorem calculate_price_trend_classification:
  "(flt (QueryHistory r d) \<longrightarrow> calculate_price_trend flt tbl r d new_avg = Stable)
   \<and> ((\<forall>m \<in> set tbl. \<not> (md_route m = r \<and> d - 7 \<le> md_date m \<and> md_date m < d))
      \<longrightarrow> calculate_price_trend flt tbl r d new_avg = Stable)
   \<and> (\<not> flt (QueryHistory r d)
       \<and> m \<in> set tbl \<and> md_route m = r \<and> d - 7 \<le> md_date m \<and> md_date m < d
       \<and> (\<forall>m' \<in> set tbl. md_route m' = r \<and> d - 7 \<le> md_date m' \<and> md_date m' < d
              \<longrightarrow> m' = m \<or> md_date m' < md_date m)
      \<longrightarrow> calculate_price_trend flt tbl r d new_avg =
            (if float_of (average_price m) = 0 then Stable
             else if float_of (1 / 10)
                       < fdiv (fsub new_avg (float_of (average_price m))) (float_of (average_price m))
             then Increasing
             else if fdiv (fsub new_avg (float_of (average_price m))) (float_of (average_price m))
                       < - float_of (1 / 10)
             then Decreasing
             else Stable))"
proof (intro impI conjI)
  assume "flt (QueryHistory r d)"
  then show "calculate_price_trend flt tbl r d new_avg = Stable"
    by (simp add: calculate_price_trend_def)
next
  assume "\<forall>m \<in> set tbl. \<not> (md_route m = r \<and> d - 7 \<le> md_date m \<and> md_date m < d)"
  then have "historical_data tbl r d = []"
    by (simp add: historical_data_empty)
  then show "calculate_price_trend flt tbl r d new_avg = Stable"
    by (simp add: calculate_price_trend_def)
next
  assume "\<not> flt (QueryHistory r d)
       \<and> m \<in> set tbl \<and> md_route m = r \<and> d - 7 \<le> md_date m \<and> md_date m < d
       \<and> (\<forall>m' \<in> set tbl. md_route m' = r \<and> d - 7 \<le> md_date m' \<and> md_date m' < d
              \<longrightarrow> m' = m \<or> md_date m' < md_date m)"
  then show "calculate_price_trend flt tbl r d new_avg =
            (if float_of (average_price m) = 0 then Stable
             else if float_of (1 / 10)
                       < fdiv (fsub new_avg (float_of (average_price m))) (float_of (average_price m))
             then Increasing
             else if fdiv (fsub new_avg (float_of (average_price m))) (float_of (average_price m))
                       < - float_of (1 / 10)
             then Decreasing
             else Stable)"
    using calculate_price_trend_latest[of flt r d m tbl new_avg] by blast
qed

text \<open>
  Two cases in which the classification is not the one that the exact relative
  change gives against the bounds 0.10 and -0.10.  With a failing history query
  the change from 100 to 111 is classified stable.  And the comparison is one of
  floats: from the stored average 203.00 to the new average 223.30 the change is
  exactly one tenth, not more, yet the group is classified increasing (the float
  nearest to 223.30 lies above it), and from 199.00 to 179.10 the change is exactly
  minus one tenth, yet the group is classified decreasing.
\<close>

theorem calculate_price_trend_classification_counterexample:
  "calculate_price_trend history_fails [prior100] 1 10 111 = Stable
   \<and> historical_data [prior100] 1 10 = [prior100]
   \<and> (111 - average_price prior100) / average_price prior100 = 11 / 100
   \<and> (2233 / 10 - average_price prior203) / average_price prior203 = 1 / 10
   \<and> calculate_price_trend no_faults [prior203] 1 10 (float_of (2233 / 10)) = Increasing
   \<and> market_demand_table (fst (process_flight_data no_faults 0 db203)) =
       [prior203,
        \<lparr>md_route = 1, md_date = 10, search_volume = 1, average_price = 2233 / 10,
         price_trend = Increasing, demand_level = Low\<rparr>]
   \<and> (1791 / 10 - average_price prior199) / average_price prior199 = - (1 / 10)
   \<and> calculate_price_trend no_faults [prior199] 1 10 (float_of (1791 / 10)) = Decreasing"
proof -
  have "calculate_price_trend history_fails [prior100] 1 10 111 = Stable"
    by (simp add: calculate_price_trend_def history_fails_def)
  moreover have "historical_data [prior100] 1 10 = [prior100]"
    by (simp add: historical_data_def prior100_def)
  moreover have "(111 - average_price prior100) / average_price prior100 = 11 / 100"
    by (simp add: prior100_def)
  moreover have "(2233 / 10 - average_price prior203) / average_price prior203 = 1 / 10"
    by (simp add: prior203_def)
  moreover have "(1791 / 10 - average_price prior199) / average_price prior199 = - (1 / 10)"
    by (simp add: prior199_def)
  ultimately show ?thesis
    using trend_203 trend_199 process_db203 by simp
qed

theorem calculate_price_trend_classification_witness:
  "history_fails (QueryHistory 1 10)
   \<and> calculate_price_trend history_fails [prior100] 1 10 111 = Stable
   \<and> calculate_price_trend no_faults [] 1 10 111 = Stable
   \<and> \<not> no_faults (QueryHistory 1 10)
   \<and> prior100 \<in> set [prior100] \<and> md_route prior100 = 1 \<and> md_date prior100 = 9
   \<and> average_price prior100 = 100
   \<and> calculate_price_trend no_faults [prior100] 1 10 111 = Increasing
   \<and> calculate_price_trend no_faults [prior100] 1 10 89 = Decreasing
   \<and> calculate_price_trend no_faults [prior100] 1 10 105 = Stable
   \<and> calculate_price_trend no_faults [prior100] 1 10 110 = Stable"
  using calculate_price_trend_classification[of history_fails 1 10 "[prior100]" 111 prior100]
    calculate_price_trend_classification[of no_faults 1 10 "[]" 111 prior100]
    calculate_price_trend_classification[of no_faults 1 10 "[prior100]" 111 prior100]
    trend_100_111 trend_100_89 trend_100_105 trend_100_110
  by (simp add: no_faults_def history_fails_def prior100_def)


section \<open>Popular routes\<close>


























section \<open>Title uniqueness of insights\<close>

lemma get_or_create_cases:
  assumes "get_or_create tbl new = Inr (tbl', i, created)"
  shows "(created \<and> tbl' = tbl @ [new] \<and> i = new \<and> title new \<notin> title ` set tbl)
         \<or> (\<not> created \<and> tbl' = tbl \<and> i \<in> set tbl \<and> title i = title new)"
proof (cases "filter (\<lambda>i. title i = title new) tbl")
  case Nil
  then have "title new \<notin> title ` set tbl"
    by (auto simp: filter_empty_conv)
  with Nil assms show ?thesis
    by (auto simp: get_or_create_def)
next
  case (Cons a as)
  then have "a \<in> set (filter (\<lambda>i. title i = title new) tbl)"
    by simp
  then have "a \<in> set tbl" "title a = title new"
    by simp_all
  with Cons assms show ?thesis
    by (cases as) (simp_all add: get_or_create_def)
qed

lemma get_or_create_existing:
  assumes "distinct (map title tbl)" and "i \<in> set tbl" and "title new = title i"
  shows "get_or_create tbl new = Inr (tbl, i, False)"
proof -
  have "filter (\<lambda>j. title j = title new) tbl = [i]"
    using assms
  proof (induction tbl)
    case Nil
    then show ?case by simp
  next
    case (Cons a tbl)
    show ?case
    proof (cases "a = i")
      case True
      from Cons.prems True have "title new \<notin> title ` set tbl"
        by simp
      then have "\<forall>j \<in> set tbl. title j \<noteq> title new"
        by (metis imageI)
      then have "filter (\<lambda>j. title j = title new) tbl = []"
        by (simp add: filter_empty_conv)
      with True Cons.prems show ?thesis
        by simp
    next
      case False
      with Cons.prems have "i \<in> set tbl" "title a \<noteq> title new"
        by auto
      with Cons show ?thesis
        by simp
    qed
  qed
  then show ?thesis
    by (simp add: get_or_create_def)
qed

lemma save_insights_appends:
  "\<exists>added. fst (save_insights flt tag xs tbl saved) = tbl @ added"
proof (induction xs arbitrary: tbl saved)
  case Nil
  then show ?case by simp
next
  case (Cons x xs)
  show ?case
  proof (cases "save_insights flt tag (x # xs) tbl saved = (tbl, Inl KeyError)
      \<or> save_insights flt tag (x # xs) tbl saved = (tbl, Inl StoreError)
      \<or> (\<exists>e. save_insights flt tag (x # xs) tbl saved = (tbl, Inl e))")
    case True
    then show ?thesis by auto
  next
    case False
    then obtain t de ty tbl' i created where
      goc: "get_or_create tbl \<lparr>title = t, description = de, insight_type = ty,
              confidence_score = (case data_confidence x of None \<Rightarrow> 8 / 10 | Some c \<Rightarrow> c),
              generated_by = tag\<rparr> = Inr (tbl', i, created)"
      and rec: "save_insights flt tag (x # xs) tbl saved =
             save_insights flt tag xs tbl' (if created then saved @ [i] else saved)"
      by (auto split: option.splits if_splits sum.splits)
    from get_or_create_cases[OF goc] obtain a where "tbl' = tbl @ a"
      by auto
    moreover from Cons.IH[of tbl' "if created then saved @ [i] else saved"]
    obtain b where "fst (save_insights flt tag xs tbl' (if created then saved @ [i] else saved)) = tbl' @ b"
      by blast
    ultimately show ?thesis
      using rec by simp
  qed
qed

lemma save_insights_distinct:
  "distinct (map title tbl) \<Longrightarrow> distinct (map title (fst (save_insights flt tag xs tbl saved)))"
proof (induction xs arbitrary: tbl saved)
  case Nil
  then show ?case by simp
next
  case (Cons x xs)
  show ?case
  proof (cases "\<exists>e. save_insights flt tag (x # xs) tbl saved = (tbl, Inl e)")
    case True
    with Cons.prems show ?thesis by auto
  next
    case False
    then obtain t de ty tbl' i created where
      goc: "get_or_create tbl \<lparr>title = t, description = de, insight_type = ty,
              confidence_score = (case data_confidence x of None \<Rightarrow> 8 / 10 | Some c \<Rightarrow> c),
              generated_by = tag\<rparr> = Inr (tbl', i, created)"
      and rec: "save_insights flt tag (x # xs) tbl saved =
             save_insights flt tag xs tbl' (if created then saved @ [i] else saved)"
      by (auto split: option.splits if_splits sum.splits)
    from get_or_create_cases[OF goc] Cons.prems have "distinct (map title tbl')"
      by auto
    from Cons.IH[OF this] rec show ?thesis
      by simp
  qed
qed

lemma generate_mock_insights_table:
  "insight_table (fst (generate_mock_insights flt d))
     = fst (save_insights flt ''Mock_AI_Processor'' mock_insights (insight_table d) [])"
  by (simp add: generate_mock_insights_def split: prod.splits)

lemma try_generate_insights_table:
  "\<exists>tag xs. insight_table (fst (try_generate_insights flt gemini now d))
     = fst (save_insights flt tag xs (insight_table d) [])"
proof -
  let ?recent = "filter (\<lambda>f. now - days 7 \<le> scraped_at f) (flight_table d)"
  consider "flt QueryFlights" | "\<not> flt QueryFlights" "?recent = []"
    | "\<not> flt QueryFlights" "?recent \<noteq> []"
    by blast
  then show ?thesis
  proof cases
    case 1
    then have "insight_table (fst (try_generate_insights flt gemini now d))
        = fst (save_insights flt [] [] (insight_table d) [])"
      by (simp add: try_generate_insights_def)
    then show ?thesis by blast
  next
    case 2
    then have "try_generate_insights flt gemini now d = generate_mock_insights flt d"
      by (simp add: try_generate_insights_def)
    then show ?thesis
      using generate_mock_insights_table by metis
  next
    case 3
    then have "insight_table (fst (try_generate_insights flt gemini now d))
        = fst (save_insights flt ''AI_Processor''
                (analyze_price_trends ?recent @ analyze_popular_routes ?recent
                 @ analyze_seasonal_patterns flt now d
                 @ (case gemini of None \<Rightarrow> [] | Some ai_insights \<Rightarrow> ai_insights))
                (insight_table d) [])"
      by (simp add: try_generate_insights_def Let_def split_beta)
    then show ?thesis by blast
  qed
qed

lemma generate_insights_table:
  "\<exists>tag xs tag' ys. insight_table (fst (generate_insights flt gemini now d))
     = fst (save_insights flt tag' ys (fst (save_insights flt tag xs (insight_table d) [])) [])"
proof -
  obtain tag xs where t: "insight_table (fst (try_generate_insights flt gemini now d))
     = fst (save_insights flt tag xs (insight_table d) [])"
    using try_generate_insights_table by blast
  obtain d' r where tr: "try_generate_insights flt gemini now d = (d', r)"
    by (cases "try_generate_insights flt gemini now d")
  show ?thesis
  proof (cases r)
    case (Inl e)
    with tr have "insight_table (fst (generate_insights flt gemini now d))
       = fst (save_insights flt ''Mock_AI_Processor'' mock_insights (insight_table d') [])"
      by (simp add: generate_insights_def generate_mock_insights_table)
    with t tr show ?thesis
      by auto
  next
    case (Inr s)
    with tr have "insight_table (fst (generate_insights flt gemini now d)) = insight_table d'"
      by (simp add: generate_insights_def)
    also have "\<dots> = fst (save_insights flt [] [] (insight_table d') [])"
      by simp
    finally show ?thesis
      using t tr by (metis fst_conv)
  qed
qed


text \<open>
  C3.  If no two stored insights share a title (as in the empty store), then no two
  do after \<open>generate_insights\<close>, whatever the analyzers and the text generator
  propose and whichever store operations fail, and none do after
  \<open>generate_mock_insights\<close>; the rows stored before are all kept as they were,
  new rows are appended; and \<open>get_or_create\<close> with the title of a stored row
  returns that row and leaves the table unchanged, whatever the other columns of
  the candidate.
\<close>

theorem insight_title_uniqueness:
  "distinct (map title (insight_table d)) \<longrightarrow>
     distinct (map title (insight_table (fst (generate_insights flt gemini now d))))
     \<and> distinct (map title (insight_table (fst (generate_mock_insights flt d))))
     \<and> (\<exists>added. insight_table (fst (generate_insights flt gemini now d))
                  = insight_table d @ added)
     \<and> (\<forall>i \<in> set (insight_table d). title new = title i \<longrightarrow>
           get_or_create (insight_table d) new = Inr (insight_table d, i, False))"
proof (intro impI conjI ballI)
  assume dist: "distinct (map title (insight_table d))"
  obtain tag xs tag' ys where
    t: "insight_table (fst (generate_insights flt gemini now d))
        = fst (save_insights flt tag' ys (fst (save_insights flt tag xs (insight_table d) [])) [])"
    using generate_insights_table by blast
  show "distinct (map title (insight_table (fst (generate_insights flt gemini now d))))"
    unfolding t by (intro save_insights_distinct dist)
  show "distinct (map title (insight_table (fst (generate_mock_insights flt d))))"
    unfolding generate_mock_insights_table by (intro save_insights_distinct dist)
  obtain a where a: "fst (save_insights flt tag xs (insight_table d) []) = insight_table d @ a"
    using save_insights_appends by blast
  obtain b where "fst (save_insights flt tag' ys (insight_table d @ a) []) = (insight_table d @ a) @ b"
    using save_insights_appends by blast
  with t a show "\<exists>added. insight_table (fst (generate_insights flt gemini now d))
                  = insight_table d @ added"
    by simp
next
  fix i
  assume "distinct (map title (insight_table d))" "i \<in> set (insight_table d)" "title new = title i"
  then show "get_or_create (insight_table d) new = Inr (insight_table d, i, False)"
    by (rule get_or_create_existing)
qed

theorem insight_title_uniqueness_witness:
  "distinct (map title (insight_table db_stored))
   \<and> stored_weekend \<in> set (insight_table db_stored)
   \<and> distinct (map title (insight_table (fst (generate_insights no_faults None 0 db_stored))))
   \<and> hd (insight_table (fst (generate_insights no_faults None 0 db_stored))) = stored_weekend
   \<and> get_or_create (insight_table db_stored)
        \<lparr>title = ''Weekend Premium Pricing Detected'', description = ''Another text.'',
         insight_type = ''seasonal_pattern'', confidence_score = 9 / 10,
         generated_by = ''Mock_AI_Processor''\<rparr>
       = Inr ([stored_weekend], stored_weekend, False)"
proof -
  have d: "distinct (map title (insight_table db_stored))"
    and m: "stored_weekend \<in> set (insight_table db_stored)"
    by (simp_all add: db_stored_def)
  note t = insight_title_uniqueness[of db_stored no_faults None 0
      "\<lparr>title = ''Weekend Premium Pricing Detected'', description = ''Another text.'',
         insight_type = ''seasonal_pattern'', confidence_score = 9 / 10,
         generated_by = ''Mock_AI_Processor''\<rparr>"]
  from t d have 1: "distinct (map title (insight_table (fst (generate_insights no_faults None 0 db_stored))))"
    by blast
  from t d obtain added where
    "insight_table (fst (generate_insights no_faults None 0 db_stored)) = insight_table db_stored @ added"
    by blast
  then have 2: "hd (insight_table (fst (generate_insights no_faults None 0 db_stored))) = stored_weekend"
    by (simp add: db_stored_def)
  from t d m have 3: "get_or_create (insight_table db_stored)
        \<lparr>title = ''Weekend Premium Pricing Detected'', description = ''Another text.'',
         insight_type = ''seasonal_pattern'', confidence_score = 9 / 10,
         generated_by = ''Mock_AI_Processor''\<rparr>
       = Inr ([stored_weekend], stored_weekend, False)"
    by (simp add: db_stored_def stored_weekend_def)
  from d m 1 2 3 show ?thesis
    by blast
qed


section \<open>Fallback on an empty window\<close>

lemma no_faults_False: "\<not> no_faults x"
  by (simp add: no_faults_def)

lemma get_or_create_new:
  "title new \<notin> title ` set tbl \<Longrightarrow> get_or_create tbl new = Inr (tbl @ [new], new, True)"
proof -
  assume "title new \<notin> title ` set tbl"
  then have "\<forall>i \<in> set tbl. title i \<noteq> title new"
    by (metis imageI)
  then have "filter (\<lambda>i. title i = title new) tbl = []"
    by (simp add: filter_empty_conv)
  then show ?thesis
    by (simp add: get_or_create_def)
qed

lemma get_or_create_old:
  assumes "distinct (map title tbl)" and "title new \<in> title ` set tbl"
  shows "\<exists>i. get_or_create tbl new = Inr (tbl, i, False)"
proof -
  from assms(2) obtain i where "i \<in> set tbl" "title new = title i"
    by auto
  with assms(1) show ?thesis
    using get_or_create_existing by blast
qed

lemma save_insights_step:
  assumes "distinct (map title tbl)"
  shows "save_insights no_faults tag (insight_dict t de ty c # xs) tbl saved =
     (if t \<in> title ` set tbl then save_insights no_faults tag xs tbl saved
      else save_insights no_faults tag xs
             (tbl @ [\<lparr>title = t, description = de, insight_type = ty, confidence_score = c,
                       generated_by = tag\<rparr>])
             (saved @ [\<lparr>title = t, description = de, insight_type = ty, confidence_score = c,
                       generated_by = tag\<rparr>]))"
proof (cases "t \<in> title ` set tbl")
  case True
  let ?new = "\<lparr>title = t, description = de, insight_type = ty, confidence_score = c,
                       generated_by = tag\<rparr>"
  from True have "title ?new \<in> title ` set tbl" by simp
  from get_or_create_old[OF assms this] obtain i where "get_or_create tbl ?new = Inr (tbl, i, False)"
    by blast
  with True show ?thesis
    by (simp add: insight_dict_def no_faults_def)
next
  case False
  let ?new = "\<lparr>title = t, description = de, insight_type = ty, confidence_score = c,
                       generated_by = tag\<rparr>"
  from False have "title ?new \<notin> title ` set tbl" by simp
  from get_or_create_new[OF this] False show ?thesis
    by (simp add: insight_dict_def no_faults_def)
qed

lemma mock_rows_eq:
  "mock_rows =
     [\<lparr>title = ''Sydney-Melbourne Route Shows Strong Demand'',
       description = ''The Sydney to Melbourne route demonstrates consistent high booking volume with competitive pricing averaging $180-220. This route represents a key opportunity for business travelers and weekend getaways.'',
       insight_type = ''popular_route'', confidence_score = 85 / 100,
       generated_by = ''Mock_AI_Processor''\<rparr>,
      \<lparr>title = ''Weekend Premium Pricing Detected'',
       description = ''Flight prices show a 15-25% increase during weekends across major Australian routes. This premium pricing indicates higher leisure travel demand on weekends.'',
       insight_type = ''seasonal_pattern'', confidence_score = 9 / 10,
       generated_by = ''Mock_AI_Processor''\<rparr>,
      \<lparr>title = ''Brisbane-Gold Coast Corridor Opportunity'',
       description = ''The Brisbane to Gold Coast route shows growing demand with relatively stable pricing. This short-haul route could benefit from increased frequency during peak tourist seasons.'',
       insight_type = ''demand_forecast'', confidence_score = 75 / 100,
       generated_by = ''Mock_AI_Processor''\<rparr>]"
  by (simp add: mock_rows_def mock_insights_def save_insights_step del: save_insights.simps(2))

lemma save_mock_insights:
  assumes "distinct (map title tbl)"
  shows "save_insights no_faults ''Mock_AI_Processor'' mock_insights tbl [] =
     (tbl @ filter (\<lambda>r. title r \<notin> title ` set tbl) mock_rows,
      Inr (filter (\<lambda>r. title r \<notin> title ` set tbl) mock_rows))"
  using assms
  by (simp add: mock_rows_eq mock_insights_def save_insights_step del: save_insights.simps(2))


lemma save_insights_tags:
  "snd (save_insights flt tag xs tbl saved) = Inr s \<Longrightarrow>
     \<forall>r \<in> set s. r \<in> set saved \<or> generated_by r = tag"
proof (induction xs arbitrary: tbl saved)
  case Nil
  then show ?case by auto
next
  case (Cons x xs)
  from Cons.prems obtain t de ty tbl' i created where
    goc: "get_or_create tbl \<lparr>title = t, description = de, insight_type = ty,
            confidence_score = (case data_confidence x of None \<Rightarrow> 8 / 10 | Some c \<Rightarrow> c),
            generated_by = tag\<rparr> = Inr (tbl', i, created)"
    and rec: "save_insights flt tag (x # xs) tbl saved =
           save_insights flt tag xs tbl' (if created then saved @ [i] else saved)"
    by (auto split: option.splits if_splits sum.splits)
  from get_or_create_cases[OF goc] have i: "created \<longrightarrow> generated_by i = tag"
    by auto
  from Cons.prems rec have "snd (save_insights flt tag xs tbl' (if created then saved @ [i] else saved)) = Inr s"
    by simp
  from Cons.IH[OF this] i show ?case
    by (cases created) auto
qed

text \<open>
  C8 (amended).  When the window of the last seven days is empty, the store
  operations succeed and the stored titles are distinct, \<open>generate_insights\<close>
  stores every mock insight whose title is not stored yet and returns exactly
  those, in the order of the fixed list: all three on a store that has none of the
  titles, none on a store that has them all.  Each mock row is tagged
  \<open>Mock_AI_Processor\<close>, which differs from the tag \<open>AI_Processor\<close> of every row
  that the run over a non-empty window creates.
\<close>

theorem empty_window_fallback:
  "(filter (\<lambda>f. now - days 7 \<le> scraped_at f) (flight_table d) = []
      \<and> distinct (map title (insight_table d))
     \<longrightarrow> generate_insights no_faults gemini now d =
           (d\<lparr>insight_table :=
                insight_table d @ filter (\<lambda>r. title r \<notin> title ` set (insight_table d)) mock_rows\<rparr>,
            Inr (filter (\<lambda>r. title r \<notin> title ` set (insight_table d)) mock_rows)))
   \<and> map title mock_rows =
       [''Sydney-Melbourne Route Shows Strong Demand'', ''Weekend Premium Pricing Detected'',
        ''Brisbane-Gold Coast Corridor Opportunity'']
   \<and> (\<forall>r \<in> set mock_rows. generated_by r = ''Mock_AI_Processor'')
   \<and> ''Mock_AI_Processor'' \<noteq> ''AI_Processor''
   \<and> (filter (\<lambda>f. now - days 7 \<le> scraped_at f) (flight_table d) \<noteq> []
        \<and> snd (try_generate_insights flt gemini now d) = Inr saved
      \<longrightarrow> (\<forall>r \<in> set saved. generated_by r = ''AI_Processor''))"
proof (intro conjI impI)
  assume a: "filter (\<lambda>f. now - days 7 \<le> scraped_at f) (flight_table d) = []
      \<and> distinct (map title (insight_table d))"
  then have "try_generate_insights no_faults gemini now d = generate_mock_insights no_faults d"
    by (simp add: try_generate_insights_def no_faults_False)
  moreover from a have "generate_mock_insights no_faults d =
      (d\<lparr>insight_table :=
                insight_table d @ filter (\<lambda>r. title r \<notin> title ` set (insight_table d)) mock_rows\<rparr>,
            Inr (filter (\<lambda>r. title r \<notin> title ` set (insight_table d)) mock_rows))"
    by (simp add: generate_mock_insights_def save_mock_insights)
  ultimately show "generate_insights no_faults gemini now d =
           (d\<lparr>insight_table :=
                insight_table d @ filter (\<lambda>r. title r \<notin> title ` set (insight_table d)) mock_rows\<rparr>,
            Inr (filter (\<lambda>r. title r \<notin> title ` set (insight_table d)) mock_rows))"
    by (simp add: generate_insights_def)
next
  show "map title mock_rows =
       [''Sydney-Melbourne Route Shows Strong Demand'', ''Weekend Premium Pricing Detected'',
        ''Brisbane-Gold Coast Corridor Opportunity'']"
    by (simp add: mock_rows_eq)
  show "\<forall>r \<in> set mock_rows. generated_by r = ''Mock_AI_Processor''"
    by (simp add: mock_rows_eq)
  show "''Mock_AI_Processor'' \<noteq> ''AI_Processor''"
    by simp
next
  assume a: "filter (\<lambda>f. now - days 7 \<le> scraped_at f) (flight_table d) \<noteq> []
        \<and> snd (try_generate_insights flt gemini now d) = Inr saved"
  then have nf: "\<not> flt QueryFlights"
    by (auto simp: try_generate_insights_def)
  with a have "\<exists>xs. snd (save_insights flt ''AI_Processor'' xs (insight_table d) []) = Inr saved"
    by (auto simp: try_generate_insights_def Let_def split_beta)
  then show "\<forall>r \<in> set saved. generated_by r = ''AI_Processor''"
    using save_insights_tags by fastforce
qed

theorem empty_window_fallback_counterexample:
  "filter (\<lambda>f. 0 - days 7 \<le> scraped_at f) (flight_table db_mocked) = []
   \<and> generate_insights no_faults None 0 db_empty = (db_mocked, Inr mock_rows)
   \<and> generate_insights no_faults None 0 db_mocked = (db_mocked, Inr [])
   \<and> length mock_rows = 3"
proof -
  have m1: "generate_mock_insights no_faults db_empty = (db_mocked, Inr mock_rows)"
    by (simp add: generate_mock_insights_def save_mock_insights db_mocked_def db_empty_def)
  have m2: "generate_mock_insights no_faults db_mocked = (db_mocked, Inr [])"
    by (simp add: generate_mock_insights_def save_mock_insights db_mocked_def mock_rows_eq)
  have t1: "try_generate_insights no_faults None 0 db_empty = generate_mock_insights no_faults db_empty"
    by (simp add: try_generate_insights_def no_faults_False db_empty_def)
  have t2: "try_generate_insights no_faults None 0 db_mocked = generate_mock_insights no_faults db_mocked"
    by (simp add: try_generate_insights_def no_faults_False db_mocked_def)
  show ?thesis
    by (simp add: generate_insights_def t1 t2 m1 m2) (simp add: db_mocked_def mock_rows_eq)
qed

theorem empty_window_fallback_witness:
  "filter (\<lambda>f. 0 - days 7 \<le> scraped_at f) (flight_table db_stored) = []
   \<and> distinct (map title (insight_table db_stored))
   \<and> generate_insights no_faults None 0 db_stored =
       (db_stored\<lparr>insight_table := [stored_weekend, mock_rows ! 0, mock_rows ! 2]\<rparr>,
        Inr [mock_rows ! 0, mock_rows ! 2])
   \<and> generated_by stored_weekend = ''AI_Processor''
   \<and> generated_by (mock_rows ! 0) = ''Mock_AI_Processor''
   \<and> generated_by (mock_rows ! 2) = ''Mock_AI_Processor''"
  using empty_window_fallback[of 0 db_stored None no_faults "[]"]
  by (simp add: db_stored_def stored_weekend_def mock_rows_eq)


section \<open>Price volatility\<close>































end
